theory Spec2Isabelle
  imports Main "HOL-Library.Sublist"
begin

section \<open>SmartMedicare: the route handlers of app.js over an explicit store\<close>

text \<open>
  The application is an Express server over four Mongoose collections. Each route handler
  of \<^verbatim>\<open>src/app.js\<close> is embedded as a function from the request and the state of the
  store to a response and the new state. What belongs to libraries (the ObjectId
  validator and casts of Mongoose, the password hash, the id generator, the clock) is an
  input of the model, so every theorem holds whatever those libraries compute.

  Strings are lists of 8-bit characters: the Latin-1 range of JavaScript's code units.
\<close>

subsection \<open>JavaScript strings and \<^verbatim>\<open>parseInt\<close>\<close>

text \<open>\<^verbatim>\<open>hay.includes(needle)\<close>: the needle occurs in the text as a contiguous run.\<close>

fun str_includes :: "string \<Rightarrow> string \<Rightarrow> bool" where
  "str_includes [] needle = (needle = [])"
| "str_includes (c # cs) needle = (prefix needle (c # cs) \<or> str_includes cs needle)"

text \<open>\<^verbatim>\<open>x || d\<close> on a string that may be undefined: the empty string is falsy too.\<close>

definition or_default :: "string option \<Rightarrow> string \<Rightarrow> string" where
  "or_default x d = (case x of None \<Rightarrow> d | Some s \<Rightarrow> if s = [] then d else s)"

text \<open>
  \<^verbatim>\<open>parseInt(text)\<close> with no radix, after ECMA-262: leading white space is dropped, one
  sign is read, a prefix \<^verbatim>\<open>0x\<close> or \<^verbatim>\<open>0X\<close> selects radix 16, then the longest run of
  digits of the radix is the value; with no digit the result is NaN, here \<open>None\<close>.
  The value is kept as an exact integer: JavaScript rounds it to a double, which is
  monotone and exact up to \<open>2^53\<close>, so a comparison with 140 reads the same.
\<close>

definition isWhiteSpace :: "char \<Rightarrow> bool" where
  "isWhiteSpace c = ((of_char c :: nat) \<in> {9, 10, 11, 12, 13, 32, 160})"

definition digitValue :: "char \<Rightarrow> nat option" where
  "digitValue c =
     (let n = (of_char c :: nat) in
      if 48 \<le> n \<and> n \<le> 57 then Some (n - 48)
      else if 97 \<le> n \<and> n \<le> 122 then Some (n - 87)
      else if 65 \<le> n \<and> n \<le> 90 then Some (n - 55)
      else None)"

definition isRadixDigit :: "nat \<Rightarrow> char \<Rightarrow> bool" where
  "isRadixDigit R c = (case digitValue c of None \<Rightarrow> False | Some d \<Rightarrow> d < R)"

definition digitsValue :: "nat \<Rightarrow> string \<Rightarrow> nat" where
  "digitsValue R Z =
     foldl (\<lambda>acc c. acc * R + (case digitValue c of None \<Rightarrow> 0 | Some d \<Rightarrow> d)) 0 Z"

definition parseInt :: "string \<Rightarrow> int option" where
  "parseInt inputString =
     (let S = dropWhile isWhiteSpace inputString;
          sign = (if S \<noteq> [] \<and> hd S = CHR ''-'' then - 1 else 1 :: int);
          S1 = (if S \<noteq> [] \<and> (hd S = CHR ''+'' \<or> hd S = CHR ''-'') then tl S else S);
          hex = (2 \<le> length S1 \<and> (take 2 S1 = ''0x'' \<or> take 2 S1 = ''0X''));
          R = (if hex then 16 else 10 :: nat);
          S2 = (if hex then drop 2 S1 else S1);
          Z = takeWhile (isRadixDigit R) S2
      in if Z = [] then None else Some (sign * int (digitsValue R Z)))"

text \<open>\<^verbatim>\<open>x > k\<close> on a number that may be NaN: every comparison with NaN is false.\<close>

definition num_gt :: "int option \<Rightarrow> int \<Rightarrow> bool" where
  "num_gt x k = (case x of None \<Rightarrow> False | Some v \<Rightarrow> v > k)"

subsection \<open>The documents of the four collections\<close>

text \<open>
  An ObjectId is kept as the text \<^verbatim>\<open>String(id)\<close> prints (24 hexadecimal digits), a
  Date as a number of milliseconds. The type \<open>'n\<close> stands for the values a Mongoose
  \<^verbatim>\<open>Number\<close> path stores; the handlers only store and return them. A path that is not
  set is \<open>None\<close>.
\<close>

type_synonym oid = string

record vitals =
  bp :: "string option"
  sugar :: "string option"
  weight :: "string option"
  temperature :: "string option"

record schedule =
  s_date :: "nat option"
  s_type :: "string option"
  s_status :: "string option"

record notification =
  n_message :: "string option"
  n_date :: "nat option"

record 'n patient =
  p_id :: oid
  patientCode :: string
  p_name :: "string option"
  age :: "'n option"
  gender :: "string option"
  bloodGroup :: "string option"
  phone :: "string option"
  hospital :: "string option"
  p_medicines :: "oid list"
  schedules :: "schedule list"
  notifications :: "notification list"
  p_vitals :: vitals
  assignedDoctor :: "oid option"
  p_image :: "string option"

record 'n medicine =
  m_id :: oid
  m_name :: "string option"
  dosesRemaining :: "'n option"
  frequency :: "string option"
  reason :: "string option"
  m_patient :: "oid option"

record 'n rx_line =
  l_name :: "string option"
  dosage :: "'n option"
  days :: "'n option"

record 'n prescription =
  r_id :: oid
  r_patient :: "oid option"
  doctor :: "oid option"
  r_medicines :: "'n rx_line list"
  r_notes :: "string option"
  r_date :: nat

text \<open>
  Modelled from the spec: the schema of \<^verbatim>\<open>models/User.js\<close>, which is not among the
  sources. The spec gives a User an email, a password hashed at rest, a role out of
  doctor and patient, and a reference to one Patient.
\<close>

record user =
  u_id :: oid
  email :: string
  password :: string
  role :: string
  u_patient :: "oid option"

subsection \<open>Risk scoring of the AI-insights handler (app.js, lines 396 to 427)\<close>

record insights =
  score :: int
  risks :: "string list"
  suggestions :: "string list"

text \<open>
  Lines 401 and 402: \<^verbatim>\<open>patient.vitals?.bp || ""\<close> and
  \<^verbatim>\<open>parseInt(patient.vitals?.sugar || "0")\<close>.
\<close>

definition vitals_bp :: "'n patient \<Rightarrow> string" where
  "vitals_bp patient = or_default (bp (p_vitals patient)) ''''"

definition vitals_sugar :: "'n patient \<Rightarrow> int option" where
  "vitals_sugar patient = parseInt (or_default (sugar (p_vitals patient)) ''0'')"

definition riskScoring :: "'n patient \<Rightarrow> 'n prescription list \<Rightarrow> insights" where
  "riskScoring patient prescriptions =
     (let a0 = \<lparr>score = 100, risks = [], suggestions = []\<rparr>;
          bp = vitals_bp patient;
          sugar = vitals_sugar patient;
          a1 = (if str_includes bp ''140'' \<or> str_includes bp ''150''
                then a0\<lparr>risks := risks a0 @ [''High Blood Pressure''], score := score a0 - 20\<rparr>
                else a0);
          a2 = (if num_gt sugar 140
                then a1\<lparr>risks := risks a1 @ [''High Blood Sugar''], score := score a1 - 20\<rparr>
                else a1);
          a3 = (if length prescriptions > 3
                then a2\<lparr>risks := risks a2 @ [''Long-term medication dependency''],
                        score := score a2 - 10\<rparr>
                else a2);
          a4 = (if length (risks a3) = 0
                then a3\<lparr>risks := risks a3 @ [''No major risks detected'']\<rparr> else a3);
          a5 = (if score a4 < 80
                then a4\<lparr>suggestions := suggestions a4 @ [''Lifestyle improvement recommended'']\<rparr>
                else a4);
          a6 = (if ''High Blood Pressure'' \<in> set (risks a5)
                then a5\<lparr>suggestions := suggestions a5 @ [''Reduce salt intake'']\<rparr> else a5);
          a7 = (if ''High Blood Sugar'' \<in> set (risks a6)
                then a6\<lparr>suggestions := suggestions a6 @ [''Avoid sugar and carbs'']\<rparr> else a6)
      in if length (suggestions a7) = 0
         then a7\<lparr>suggestions := suggestions a7 @ [''Keep following current treatment'']\<rparr>
         else a7)"

text \<open>
  The scoring as section 4.8 of the specification words it, over the bp text, the sugar
  as an integer and the number of prescriptions.
\<close>

definition spec_sugar :: "string option \<Rightarrow> int" where
  "spec_sugar x =
     (case x of None \<Rightarrow> 0 | Some s \<Rightarrow> (case parseInt s of None \<Rightarrow> 0 | Some v \<Rightarrow> v))"

definition spec_scoring :: "string \<Rightarrow> int \<Rightarrow> nat \<Rightarrow> insights" where
  "spec_scoring bpText sugarValue n =
     (let highBp = (str_includes bpText ''140'' \<or> str_includes bpText ''150'');
          highSugar = (sugarValue > 140);
          longTerm = (n > 3);
          sc = 100 - (if highBp then 20 else 0) - (if highSugar then 20 else 0)
                   - (if longTerm then 10 else 0);
          rs = (if highBp then [''High Blood Pressure''] else [])
             @ (if highSugar then [''High Blood Sugar''] else [])
             @ (if longTerm then [''Long-term medication dependency''] else []);
          sg = (if sc < 80 then [''Lifestyle improvement recommended''] else [])
             @ (if highBp then [''Reduce salt intake''] else [])
             @ (if highSugar then [''Avoid sugar and carbs''] else [])
      in \<lparr>score = sc,
          risks = (if rs = [] then [''No major risks detected''] else rs),
          suggestions = (if sg = [] then [''Keep following current treatment''] else sg)\<rparr>)"

text \<open>A sugar vital that is absent, or a text in which \<^verbatim>\<open>parseInt\<close> finds no number.\<close>

definition unparsable :: "string option \<Rightarrow> bool" where
  "unparsable x = (case x of None \<Rightarrow> True | Some t \<Rightarrow> parseInt t = None)"

text \<open>A Patient as \<^verbatim>\<open>Patient.create({ name, patientCode })\<close> stores it (schema defaults).\<close>

definition new_patient :: "oid \<Rightarrow> string \<Rightarrow> string \<Rightarrow> 'n patient" where
  "new_patient i nm code =
     \<lparr>p_id = i, patientCode = code, p_name = Some nm, age = None, gender = None,
      bloodGroup = None, phone = None, hospital = None, p_medicines = [], schedules = [],
      notifications = [],
      p_vitals = \<lparr>bp = None, sugar = None, weight = None, temperature = None\<rparr>,
      assignedDoctor = None, p_image = None\<rparr>"

definition with_vitals :: "string option \<Rightarrow> string option \<Rightarrow> 'n patient \<Rightarrow> 'n patient" where
  "with_vitals b s p = p\<lparr>p_vitals := (p_vitals p)\<lparr>bp := b, sugar := s\<rparr>\<rparr>"


subsection \<open>The store, exceptions and the sequencing of awaited calls\<close>

datatype exn = TypeError | CastError | ValidationError

datatype query =
    Q_User_findOne | Q_User_save
  | Q_Patient_findOne | Q_Patient_create | Q_Patient_findById | Q_Patient_save
  | Q_Medicine_find | Q_Medicine_findById | Q_Medicine_save | Q_Medicine_findByIdAndDelete
  | Q_Prescription_find | Q_Prescription_save

text \<open>
  The state a handler runs in: the four collections in insertion order, the calls that
  reached the database so far, and the flash messages of the session.
\<close>

record 'n state =
  users :: "user list"
  patients :: "'n patient list"
  medicines :: "'n medicine list"
  prescriptions :: "'n prescription list"
  queries :: "query list"
  flash :: "(string \<times> string) list"

text \<open>
  What the libraries decide: \<^verbatim>\<open>mongoose.Types.ObjectId.isValid\<close>, the cast of a text to an
  ObjectId path and to a Number path (\<open>None\<close> is a cast error, \<open>Some None\<close> is null),
  and the hash the User model applies to a password on save.
\<close>

record 'n lib =
  isValid :: "string \<Rightarrow> bool"
  castObjectId :: "string \<Rightarrow> oid option"
  castNumber :: "string \<Rightarrow> 'n option option"
  hashPassword :: "string \<Rightarrow> string"

type_synonym ('n, 'a) action = "'n state \<Rightarrow> (exn + 'a) \<times> 'n state"

definition ret :: "'a \<Rightarrow> ('n, 'a) action" where
  "ret x s = (Inr x, s)"

definition throw :: "exn \<Rightarrow> ('n, 'a) action" where
  "throw e s = (Inl e, s)"

definition await :: "('n, 'a) action \<Rightarrow> ('a \<Rightarrow> ('n, 'b) action) \<Rightarrow> ('n, 'b) action" where
  "await m f s = (case m s of (Inl e, s') \<Rightarrow> (Inl e, s') | (Inr x, s') \<Rightarrow> f x s')"

definition try_catch :: "('n, 'a) action \<Rightarrow> (exn \<Rightarrow> ('n, 'a) action) \<Rightarrow> ('n, 'a) action" where
  "try_catch m h s = (case m s of (Inl e, s') \<Rightarrow> h e s' | (Inr x, s') \<Rightarrow> (Inr x, s'))"

definition sent :: "query \<Rightarrow> ('n, unit) action" where
  "sent q s = (Inr (), s\<lparr>queries := queries s @ [q]\<rparr>)"

definition req_flash :: "string \<Rightarrow> string \<Rightarrow> ('n, unit) action" where
  "req_flash kind msg s = (Inr (), s\<lparr>flash := flash s @ [(kind, msg)]\<rparr>)"

text \<open>Reading a property of a value that is null throws a TypeError.\<close>

definition deref :: "'a option \<Rightarrow> ('n, 'a) action" where
  "deref x = (case x of None \<Rightarrow> throw TypeError | Some v \<Rightarrow> ret v)"

text \<open>\<^verbatim>\<open>updateOne\<close> and \<^verbatim>\<open>deleteOne\<close> by a filter touch the first match only.\<close>

fun replace_first :: "('a \<Rightarrow> bool) \<Rightarrow> 'a \<Rightarrow> 'a list \<Rightarrow> 'a list" where
  "replace_first P y [] = []"
| "replace_first P y (x # xs) = (if P x then y # xs else x # replace_first P y xs)"

fun delete_first :: "('a \<Rightarrow> bool) \<Rightarrow> 'a list \<Rightarrow> 'a list" where
  "delete_first P [] = []"
| "delete_first P (x # xs) = (if P x then xs else x # delete_first P xs)"

subsection \<open>The Mongoose calls the handlers make\<close>

definition cast_id :: "'n lib \<Rightarrow> string \<Rightarrow> ('n, oid) action" where
  "cast_id L i = (case castObjectId L i of None \<Rightarrow> throw CastError | Some k \<Rightarrow> ret k)"

definition User_findOne :: "string \<Rightarrow> ('n, user option) action" where
  "User_findOne e =
     await (sent Q_User_findOne) (\<lambda>_ s. (Inr (find (\<lambda>u. email u = e) (users s)), s))"

text \<open>
  Modelled from the spec: saving a User, whose model is not among the sources. The role
  is validated against the enumeration of the spec, the password is stored hashed.
\<close>

definition User_save :: "'n lib \<Rightarrow> user \<Rightarrow> ('n, unit) action" where
  "User_save L u =
     (if role u \<noteq> ''doctor'' \<and> role u \<noteq> ''patient'' then throw ValidationError
      else await (sent Q_User_save)
             (\<lambda>_ s. (Inr (), s\<lparr>users := users s @ [u\<lparr>password := hashPassword L (password u)\<rparr>]\<rparr>)))"

definition Patient_findOne :: "string \<Rightarrow> ('n, 'n patient option) action" where
  "Patient_findOne code =
     await (sent Q_Patient_findOne)
       (\<lambda>_ s. (Inr (find (\<lambda>p. patientCode p = code) (patients s)), s))"

definition Patient_create :: "'n patient \<Rightarrow> ('n, 'n patient) action" where
  "Patient_create p =
     await (sent Q_Patient_create) (\<lambda>_ s. (Inr p, s\<lparr>patients := patients s @ [p]\<rparr>))"

definition Patient_findById_oid :: "oid \<Rightarrow> ('n, 'n patient option) action" where
  "Patient_findById_oid k =
     await (sent Q_Patient_findById) (\<lambda>_ s. (Inr (find (\<lambda>p. p_id p = k) (patients s)), s))"

definition Patient_findById :: "'n lib \<Rightarrow> string \<Rightarrow> ('n, 'n patient option) action" where
  "Patient_findById L i = await (cast_id L i) Patient_findById_oid"

definition Patient_save :: "'n patient \<Rightarrow> ('n, unit) action" where
  "Patient_save p =
     await (sent Q_Patient_save)
       (\<lambda>_ s. (Inr (), s\<lparr>patients := replace_first (\<lambda>q. p_id q = p_id p) p (patients s)\<rparr>))"

definition Medicine_find_patient :: "oid \<Rightarrow> ('n, 'n medicine list) action" where
  "Medicine_find_patient k =
     await (sent Q_Medicine_find)
       (\<lambda>_ s. (Inr (filter (\<lambda>m. m_patient m = Some k) (medicines s)), s))"

definition Medicine_find_in :: "oid list \<Rightarrow> ('n, 'n medicine list) action" where
  "Medicine_find_in ids =
     await (sent Q_Medicine_find)
       (\<lambda>_ s. (Inr (filter (\<lambda>m. m_id m \<in> set ids) (medicines s)), s))"

definition Medicine_findById :: "'n lib \<Rightarrow> string \<Rightarrow> ('n, 'n medicine option) action" where
  "Medicine_findById L i =
     await (cast_id L i) (\<lambda>k.
     await (sent Q_Medicine_findById) (\<lambda>_ s. (Inr (find (\<lambda>m. m_id m = k) (medicines s)), s)))"

text \<open>
  A document whose paths did not all cast carries a validation error: \<open>save\<close> then
  throws and writes nothing. The second component is False for such a document.
\<close>

definition Medicine_save_new :: "'n medicine \<times> bool \<Rightarrow> ('n, unit) action" where
  "Medicine_save_new d =
     (if \<not> snd d then throw ValidationError
      else await (sent Q_Medicine_save)
             (\<lambda>_ s. (Inr (), s\<lparr>medicines := medicines s @ [fst d]\<rparr>)))"

definition Medicine_save :: "'n medicine \<times> bool \<Rightarrow> ('n, unit) action" where
  "Medicine_save d =
     (if \<not> snd d then throw ValidationError
      else await (sent Q_Medicine_save)
             (\<lambda>_ s. (Inr (),
                s\<lparr>medicines := replace_first (\<lambda>m. m_id m = m_id (fst d)) (fst d) (medicines s)\<rparr>)))"

definition Medicine_findByIdAndDelete :: "'n lib \<Rightarrow> string \<Rightarrow> ('n, 'n medicine option) action" where
  "Medicine_findByIdAndDelete L i =
     await (cast_id L i) (\<lambda>k.
     await (sent Q_Medicine_findByIdAndDelete)
       (\<lambda>_ s. (Inr (find (\<lambda>m. m_id m = k) (medicines s)),
                s\<lparr>medicines := delete_first (\<lambda>m. m_id m = k) (medicines s)\<rparr>)))"

definition Prescription_find :: "oid \<Rightarrow> ('n, 'n prescription list) action" where
  "Prescription_find k =
     await (sent Q_Prescription_find)
       (\<lambda>_ s. (Inr (filter (\<lambda>r. r_patient r = Some k) (prescriptions s)), s))"

text \<open>\<^verbatim>\<open>.sort({ date: -1 })\<close>: newest first; equal dates keep the order of the collection.\<close>

definition sort_date_desc :: "'n prescription list \<Rightarrow> 'n prescription list" where
  "sort_date_desc rs = sort_key (\<lambda>r. - int (r_date r)) rs"

definition Prescription_save_new :: "'n prescription \<times> bool \<Rightarrow> ('n, unit) action" where
  "Prescription_save_new d =
     (if \<not> snd d then throw ValidationError
      else await (sent Q_Prescription_save)
             (\<lambda>_ s. (Inr (), s\<lparr>prescriptions := prescriptions s @ [fst d]\<rparr>)))"

subsection \<open>Requests and responses\<close>

text \<open>
  Form fields arrive as text. \<^verbatim>\<open>res.send\<close> answers with status 200 unless
  \<^verbatim>\<open>res.status\<close> set another one, \<^verbatim>\<open>res.redirect\<close> with 302.
\<close>

record signup_form =
  b_email :: string
  b_password :: string
  b_role :: string
  b_name :: string
  b_patientId :: string

record medicine_form =
  bm_name :: string
  bm_dosesRemaining :: string
  bm_frequency :: string
  bm_reason :: string

record line_form =
  bl_name :: string
  bl_dosage :: string
  bl_days :: string

record prescription_form =
  b_medicines :: "line_form list"
  b_notes :: string

datatype 'n view =
    PatientView "'n patient"
  | DoctorView "'n patient" "'n medicine list"
  | MedicineView "'n patient" "'n medicine list"
  | DoctorPrescriptions "'n patient" "'n prescription list"
  | AiInsights "'n patient" int "string list" "string list"

datatype 'n response = Redirect string | Send nat string | Render "'n view"

fun status_code :: "'n response \<Rightarrow> nat" where
  "status_code (Redirect url) = 302"
| "status_code (Send c body) = c"
| "status_code (Render v) = 200"

text \<open>
  Lines 90 to 107. \<open>req_user\<close> is the user Passport restored from the session;
  \<^verbatim>\<open>req.isAuthenticated()\<close> holds when there is one.
\<close>

definition isAuth ::
  "user option \<Rightarrow> (user \<Rightarrow> ('n, 'n response) action) \<Rightarrow> ('n, 'n response) action" where
  "isAuth req_user next =
     (case req_user of None \<Rightarrow> ret (Redirect ''/login'') | Some u \<Rightarrow> next u)"

definition isDoctor :: "user \<Rightarrow> ('n, 'n response) action \<Rightarrow> ('n, 'n response) action" where
  "isDoctor u next =
     (if role u = ''doctor'' then next else ret (Send 403 ''Access Denied: Doctors only''))"

text \<open>
  \<^verbatim>\<open>String(x)\<close> of a reference: \<^verbatim>\<open>undefined\<close> prints as that word, an ObjectId as its
  digits.
\<close>

definition String_ref :: "oid option \<Rightarrow> string" where
  "String_ref x = (case x of None \<Rightarrow> ''undefined'' | Some k \<Rightarrow> k)"

subsection \<open>POST /signup (lines 162 to 212)\<close>

definition create_user ::
  "'n lib \<Rightarrow> oid \<Rightarrow> signup_form \<Rightarrow> 'n patient \<Rightarrow> ('n, 'n response) action" where
  "create_user L newUserId body patient =
     await (User_save L \<lparr>u_id = newUserId, email = b_email body, password = b_password body,
                         role = b_role body, u_patient = Some (p_id patient)\<rparr>)
       (\<lambda>_. ret (Redirect ''/login''))"

definition post_signup ::
  "'n lib \<Rightarrow> oid \<Rightarrow> oid \<Rightarrow> signup_form \<Rightarrow> ('n, 'n response) action" where
  "post_signup L newPatientId newUserId body =
     try_catch
       (await (User_findOne (b_email body)) (\<lambda>existingUser.
          if existingUser \<noteq> None
          then await (req_flash ''error'' ''Email already registered'')
                 (\<lambda>_. ret (Redirect ''/signup''))
          else if b_role body = ''patient''
          then await (Patient_findOne (b_patientId body)) (\<lambda>existingPatient.
                 if existingPatient \<noteq> None
                 then await (req_flash ''error'' ''Patient ID already exists'')
                        (\<lambda>_. ret (Redirect ''/signup''))
                 else await (Patient_create
                               (new_patient newPatientId (b_name body) (b_patientId body)))
                        (create_user L newUserId body))
          else await (Patient_findOne (b_patientId body)) (\<lambda>patient.
                 case patient of
                   None \<Rightarrow> await (req_flash ''error'' ''Patient ID not found'')
                             (\<lambda>_. ret (Redirect ''/signup''))
                 | Some p \<Rightarrow> create_user L newUserId body p)))
       (\<lambda>err. await (req_flash ''error'' ''Signup failed'') (\<lambda>_. ret (Redirect ''/signup'')))"

text \<open>A signup that is turned away: back to the form with one flash message, no new record.\<close>

definition signup_rejected ::
  "string \<Rightarrow> 'n state \<Rightarrow> (exn + 'n response) \<times> 'n state \<Rightarrow> bool" where
  "signup_rejected msg s r =
     (fst r = Inr (Redirect ''/signup'') \<and> flash (snd r) = flash s @ [(''error'', msg)]
      \<and> users (snd r) = users s \<and> patients (snd r) = patients s
      \<and> medicines (snd r) = medicines s \<and> prescriptions (snd r) = prescriptions s)"

subsection \<open>GET /patient/:id (lines 215 to 231)\<close>

definition get_patient :: "'n lib \<Rightarrow> user option \<Rightarrow> string \<Rightarrow> ('n, 'n response) action" where
  "get_patient L req_user params_id =
     isAuth req_user (\<lambda>user.
       if params_id = [] \<or> params_id = ''undefined'' then ret (Redirect ''/dashboard'')
       else if \<not> isValid L params_id then ret (Send 400 ''Invalid patient ID'')
       else await (Patient_findById L params_id) (\<lambda>patient.
              case patient of
                None \<Rightarrow> ret (Send 404 ''Patient not found'')
              | Some p \<Rightarrow> ret (Render (PatientView p))))"

subsection \<open>GET /doctor/dashboard (lines 237 to 261)\<close>

definition doctor_dashboard :: "user option \<Rightarrow> ('n, 'n response) action" where
  "doctor_dashboard req_user =
     isAuth req_user (\<lambda>user. isDoctor user
       (try_catch
          (await (deref (u_patient user)) (\<lambda>patientId.
           await (Patient_findById_oid patientId) (\<lambda>found.
             case found of
               None \<Rightarrow> ret (Send 404 ''Patient not found'')
             | Some patient \<Rightarrow>
                 await (if assignedDoctor patient = None
                        then await (Patient_save (patient\<lparr>assignedDoctor := Some (u_id user)\<rparr>))
                               (\<lambda>_. ret (patient\<lparr>assignedDoctor := Some (u_id user)\<rparr>))
                        else ret patient) (\<lambda>patient.
                 await (Medicine_find_in (p_medicines patient)) (\<lambda>medicines.
                 ret (Render (DoctorView patient medicines)))))))
          (\<lambda>error. ret (Send 500 ''Server Error''))))"

subsection \<open>GET /patient/:id/medicines (lines 264 to 271)\<close>

definition get_patient_medicines ::
  "'n lib \<Rightarrow> user option \<Rightarrow> string \<Rightarrow> ('n, 'n response) action" where
  "get_patient_medicines L req_user params_id =
     isAuth req_user (\<lambda>user.
       await (Patient_findById L params_id) (\<lambda>patient.
       await (deref patient) (\<lambda>p.
       await (Medicine_find_patient (p_id p)) (\<lambda>medicines.
       case patient of
         None \<Rightarrow> ret (Send 404 ''Patient not found'')
       | Some p \<Rightarrow> ret (Render (MedicineView p medicines))))))"

subsection \<open>POST /doctor/patient/:id/medicines (lines 291 to 307)\<close>

definition new_Medicine ::
  "'n lib \<Rightarrow> oid \<Rightarrow> medicine_form \<Rightarrow> string \<Rightarrow> 'n medicine \<times> bool" where
  "new_Medicine L newId body params_id =
     (\<lparr>m_id = newId, m_name = Some (bm_name body),
       dosesRemaining = (case castNumber L (bm_dosesRemaining body) of
                           None \<Rightarrow> None | Some n \<Rightarrow> n),
       frequency = Some (bm_frequency body), reason = Some (bm_reason body),
       m_patient = castObjectId L params_id\<rparr>,
      castNumber L (bm_dosesRemaining body) \<noteq> None \<and> castObjectId L params_id \<noteq> None)"

definition post_medicine ::
  "'n lib \<Rightarrow> oid \<Rightarrow> user option \<Rightarrow> string \<Rightarrow> medicine_form \<Rightarrow> ('n, 'n response) action" where
  "post_medicine L newId req_user params_id body =
     isAuth req_user (\<lambda>user. isDoctor user
       (try_catch
          (await (Medicine_save_new (new_Medicine L newId body params_id))
             (\<lambda>_. ret (Redirect (''/doctor/patient/'' @ params_id @ ''/medicines''))))
          (\<lambda>error. ret (Send 500 ''Server Error''))))"

subsection \<open>POST /doctor/medicine/:id/update and /delete (lines 310 to 337)\<close>

definition assign_fields :: "'n lib \<Rightarrow> medicine_form \<Rightarrow> 'n medicine \<Rightarrow> 'n medicine \<times> bool" where
  "assign_fields L body med =
     (med\<lparr>m_name := Some (bm_name body),
          dosesRemaining := (case castNumber L (bm_dosesRemaining body) of
                               None \<Rightarrow> dosesRemaining med | Some n \<Rightarrow> n),
          frequency := Some (bm_frequency body),
          reason := Some (bm_reason body)\<rparr>,
      castNumber L (bm_dosesRemaining body) \<noteq> None)"

definition post_medicine_update ::
  "'n lib \<Rightarrow> user option \<Rightarrow> string \<Rightarrow> medicine_form \<Rightarrow> ('n, 'n response) action" where
  "post_medicine_update L req_user params_id body =
     isAuth req_user (\<lambda>user. isDoctor user
       (try_catch
          (await (Medicine_findById L params_id) (\<lambda>found.
           await (deref found) (\<lambda>med.
           await (Medicine_save (assign_fields L body med))
             (\<lambda>_. ret (Redirect ''/doctor/patient/${req.params.id}/medicines'')))))
          (\<lambda>error. ret (Send 500 ''Failure to update Medicine''))))"

definition post_medicine_delete ::
  "'n lib \<Rightarrow> user option \<Rightarrow> string \<Rightarrow> ('n, 'n response) action" where
  "post_medicine_delete L req_user params_id =
     isAuth req_user (\<lambda>user. isDoctor user
       (try_catch
          (await (Medicine_findByIdAndDelete L params_id)
             (\<lambda>med. ret (Redirect ''/doctor/patient/${req.params.id}/medicines'')))
          (\<lambda>err. ret (Send 500 '' Failure to Delete medicines''))))"

subsection \<open>GET and POST /doctor/patient/:id/prescriptions (lines 340 to 380)\<close>

definition get_prescriptions ::
  "'n lib \<Rightarrow> user option \<Rightarrow> string \<Rightarrow> ('n, 'n response) action" where
  "get_prescriptions L req_user params_id =
     isAuth req_user (\<lambda>user. isDoctor user
       (try_catch
          (if \<not> isValid L params_id then ret (Send 200 ''InValid patient Id'')
           else await (Patient_findById L params_id) (\<lambda>found.
             case found of
               None \<Rightarrow> ret (Send 200 ''Patient not found'')
             | Some patient \<Rightarrow>
                 if String_ref (u_patient user) \<noteq> String_ref (Some (p_id patient))
                 then ret (Send 200 ''Unauthorized'')
                 else await (Prescription_find (p_id patient)) (\<lambda>prescriptions.
                      ret (Render (DoctorPrescriptions patient (sort_date_desc prescriptions))))))
          (\<lambda>error. ret (Send 500 ''Error loading Precriptions''))))"

definition cast_line :: "'n lib \<Rightarrow> line_form \<Rightarrow> 'n rx_line option" where
  "cast_line L l =
     (case (castNumber L (bl_dosage l), castNumber L (bl_days l)) of
        (Some d, Some n) \<Rightarrow> Some \<lparr>l_name = Some (bl_name l), dosage = d, days = n\<rparr>
      | _ \<Rightarrow> None)"

definition new_Prescription ::
  "'n lib \<Rightarrow> oid \<Rightarrow> nat \<Rightarrow> string \<Rightarrow> oid \<Rightarrow> prescription_form \<Rightarrow> 'n prescription \<times> bool" where
  "new_Prescription L newId now params_id userId body =
     (\<lparr>r_id = newId, r_patient = castObjectId L params_id, doctor = Some userId,
       r_medicines = (case those (map (cast_line L) (b_medicines body)) of
                        None \<Rightarrow> [] | Some ls \<Rightarrow> ls),
       r_notes = Some (b_notes body), r_date = now\<rparr>,
      castObjectId L params_id \<noteq> None \<and> those (map (cast_line L) (b_medicines body)) \<noteq> None)"

definition post_prescription ::
  "'n lib \<Rightarrow> oid \<Rightarrow> nat \<Rightarrow> user option \<Rightarrow> string \<Rightarrow> prescription_form
     \<Rightarrow> ('n, 'n response) action" where
  "post_prescription L newId now req_user params_id body =
     isAuth req_user (\<lambda>user. isDoctor user
       (try_catch
          (await (Prescription_save_new (new_Prescription L newId now params_id (u_id user) body))
             (\<lambda>_. ret (Redirect (''/doctor/patient/'' @ params_id @ ''/prescriptions''))))
          (\<lambda>err. ret (Send 500 ''Failed to save Prescription''))))"

subsection \<open>GET /doctor/patient/:id/ai-insights (lines 382 to 443)\<close>

definition get_ai_insights ::
  "'n lib \<Rightarrow> user option \<Rightarrow> string \<Rightarrow> ('n, 'n response) action" where
  "get_ai_insights L req_user params_id =
     isAuth req_user (\<lambda>user. isDoctor user
       (try_catch
          (await (Patient_findById L params_id) (\<lambda>found.
             case found of
               None \<Rightarrow> ret (Send 200 ''Patient not found'')
             | Some patient \<Rightarrow>
                 if String_ref (u_patient user) \<noteq> String_ref (Some (p_id patient))
                 then ret (Send 200 ''Unauthorized'')
                 else await (Prescription_find (p_id patient)) (\<lambda>prescriptions.
                      let a = riskScoring patient prescriptions
                      in ret (Render (AiInsights patient (score a) (risks a) (suggestions a))))))
          (\<lambda>err. ret (Send 500 ''AI analysis failed''))))"

subsection \<open>Requests in sequence\<close>

text \<open>The ids that some Patient lists in its \<^verbatim>\<open>medicines\<close> array.\<close>

definition linked :: "'n state \<Rightarrow> oid set" where
  "linked s = (\<Union>p\<in>set (patients s). set (p_medicines p))"

text \<open>
  One request to any of the handlers above, with any session, parameters and form. The
  other routes of app.js render pages or read; none writes a collection.
\<close>

inductive step :: "'n lib \<Rightarrow> 'n state \<Rightarrow> 'n state \<Rightarrow> bool" for L :: "'n lib" where
  signup: "step L s (snd (post_signup L newPatientId newUserId body s))"
| patient: "step L s (snd (get_patient L req_user i s))"
| dashboard: "step L s (snd (doctor_dashboard req_user s))"
| patient_medicines: "step L s (snd (get_patient_medicines L req_user i s))"
| medicine: "step L s (snd (post_medicine L newId req_user i mbody s))"
| medicine_update: "step L s (snd (post_medicine_update L req_user i mbody s))"
| medicine_delete: "step L s (snd (post_medicine_delete L req_user i s))"
| prescriptions: "step L s (snd (get_prescriptions L req_user i s))"
| prescription: "step L s (snd (post_prescription L newId now req_user i pbody s))"
| ai_insights: "step L s (snd (get_ai_insights L req_user i s))"

subsection \<open>A concrete library and store, for closed instances\<close>

text \<open>
  Ids of 24 hexadecimal digits, cast to lower case; numbers written in decimal digits,
  the empty text cast to null; a hash that tags the password.
\<close>

definition isHex :: "char \<Rightarrow> bool" where
  "isHex c = isRadixDigit 16 c"

definition toLower :: "char \<Rightarrow> char" where
  "toLower c = (let n = (of_char c :: nat) in if 65 \<le> n \<and> n \<le> 90 then char_of (n + 32) else c)"

definition hexLib :: "nat lib" where
  "hexLib =
     \<lparr>isValid = (\<lambda>i. length i = 24 \<and> list_all isHex i),
      castObjectId = (\<lambda>i. if length i = 24 \<and> list_all isHex i then Some (map toLower i) else None),
      castNumber = (\<lambda>t. if t = [] then Some None
                        else if list_all (isRadixDigit 10) t then Some (Some (digitsValue 10 t))
                        else None),
      hashPassword = (\<lambda>pw. ''hashed:'' @ pw)\<rparr>"

definition idA :: oid where "idA = ''aaaaaaaaaaaaaaaaaaaaaaaa''"
definition idB :: oid where "idB = ''bbbbbbbbbbbbbbbbbbbbbbbb''"
definition idC :: oid where "idC = ''cccccccccccccccccccccccc''"
definition idD :: oid where "idD = ''dddddddddddddddddddddddd''"
definition idE :: oid where "idE = ''eeeeeeeeeeeeeeeeeeeeeeee''"
definition idF :: oid where "idF = ''ffffffffffffffffffffffff''"

definition patientA :: "nat patient" where
  "patientA = new_patient idA ''Asha'' ''PAT-A''"

definition patientB :: "nat patient" where
  "patientB = (new_patient idB ''Bela'' ''PAT-B'')\<lparr>assignedDoctor := Some idF\<rparr>"

definition doctorC :: user where
  "doctorC = \<lparr>u_id = idC, email = ''c@clinic.org'', password = ''hashed:pw'', role = ''doctor'',
               u_patient = Some idA\<rparr>"

definition medicineD :: "nat medicine" where
  "medicineD = \<lparr>m_id = idD, m_name = Some ''Metformin'', dosesRemaining = Some 10,
                 frequency = Some ''daily'', reason = Some ''sugar'', m_patient = Some idA\<rparr>"

definition store0 :: "nat state" where
  "store0 = \<lparr>users = [doctorC], patients = [patientA, patientB], medicines = [medicineD],
              prescriptions = [], queries = [], flash = []\<rparr>"

definition doctorF :: user where
  "doctorF = \<lparr>u_id = idF, email = ''f@clinic.org'', password = ''hashed:pw'', role = ''doctor'',
               u_patient = Some idB\<rparr>"

definition formDup :: signup_form where
  "formDup = \<lparr>b_email = ''c@clinic.org'', b_password = ''pw'', b_role = ''doctor'',
              b_name = ''Cyrus'', b_patientId = ''PAT-A''\<rparr>"

definition formCode :: signup_form where
  "formCode = \<lparr>b_email = ''e@clinic.org'', b_password = ''pw'', b_role = ''patient'',
               b_name = ''Esha'', b_patientId = ''PAT-A''\<rparr>"

definition formLost :: signup_form where
  "formLost = \<lparr>b_email = ''e@clinic.org'', b_password = ''pw'', b_role = ''doctor'',
               b_name = ''Esha'', b_patientId = ''PAT-Z''\<rparr>"

definition formMed :: medicine_form where
  "formMed = \<lparr>bm_name = ''Insulin'', bm_dosesRemaining = ''30'', bm_frequency = ''twice daily'',
              bm_reason = ''diabetes''\<rparr>"

definition formRx :: prescription_form where
  "formRx = \<lparr>b_medicines = [\<lparr>bl_name = ''Insulin'', bl_dosage = ''30'', bl_days = ''30''\<rparr>],
             b_notes = ''after meals''\<rparr>"

section \<open>Theorems\<close>

subsection \<open>Strings, numbers and the scoring\<close>

lemma includes_sublist: "str_includes hay needle = sublist needle hay"
  by (induction hay) (auto simp: sublist_Cons_right)

lemmas parseInt_defs =
  parseInt_def isWhiteSpace_def isRadixDigit_def digitValue_def digitsValue_def

lemma parseInt_zero: "parseInt ''0'' = Some 0"
  by (simp add: parseInt_defs)

lemma parseInt_150: "parseInt ''150'' = Some 150"
  by (simp add: parseInt_defs)

lemma parseInt_90: "parseInt ''90'' = Some 90"
  by (simp add: parseInt_defs)

lemma parseInt_abc: "parseInt ''abc'' = None"
  by (simp add: parseInt_defs)

lemma vitals_sugar_cases:
  "vitals_sugar p =
     (case sugar (p_vitals p) of None \<Rightarrow> Some 0
      | Some t \<Rightarrow> if t = [] then Some 0 else parseInt t)"
  by (simp add: vitals_sugar_def or_default_def parseInt_zero split: option.splits)

lemma spec_sugar_gt: "num_gt (vitals_sugar p) 140 = (spec_sugar (sugar (p_vitals p)) > 140)"
  by (simp add: vitals_sugar_cases spec_sugar_def num_gt_def parseInt_def split: option.splits)

text \<open>
  The eight steps of the handler against the closed form, for any three flags and any
  labels that differ where the handler tells them apart.
\<close>

lemma scoring_steps:
  fixes A B C :: string
  assumes "A \<noteq> B" "A \<noteq> C" "B \<noteq> C" "A \<noteq> N" "B \<noteq> N"
  shows "(let a0 = \<lparr>score = 100, risks = [], suggestions = []\<rparr>;
          a1 = (if hb then a0\<lparr>risks := risks a0 @ [A], score := score a0 - 20\<rparr> else a0);
          a2 = (if hs then a1\<lparr>risks := risks a1 @ [B], score := score a1 - 20\<rparr> else a1);
          a3 = (if lt then a2\<lparr>risks := risks a2 @ [C], score := score a2 - 10\<rparr> else a2);
          a4 = (if length (risks a3) = 0 then a3\<lparr>risks := risks a3 @ [N]\<rparr> else a3);
          a5 = (if score a4 < 80 then a4\<lparr>suggestions := suggestions a4 @ [S1]\<rparr> else a4);
          a6 = (if A \<in> set (risks a5) then a5\<lparr>suggestions := suggestions a5 @ [S2]\<rparr> else a5);
          a7 = (if B \<in> set (risks a6) then a6\<lparr>suggestions := suggestions a6 @ [S3]\<rparr> else a6)
      in if length (suggestions a7) = 0 then a7\<lparr>suggestions := suggestions a7 @ [S4]\<rparr> else a7)
   = (let highBp = hb; highSugar = hs; longTerm = lt;
          sc = 100 - (if highBp then 20 else 0) - (if highSugar then 20 else 0)
                   - (if longTerm then 10 else 0);
          rs = (if highBp then [A] else []) @ (if highSugar then [B] else [])
             @ (if longTerm then [C] else []);
          sg = (if sc < 80 then [S1] else []) @ (if highBp then [S2] else [])
             @ (if highSugar then [S3] else [])
      in \<lparr>score = sc, risks = (if rs = [] then [N] else rs),
          suggestions = (if sg = [] then [S4] else sg)\<rparr>)"
  using assms by (cases hb; cases hs; cases lt) (simp_all add: Let_def)

lemma riskScoring_spec:
  "riskScoring p rx = spec_scoring (vitals_bp p) (spec_sugar (sugar (p_vitals p))) (length rx)"
  unfolding riskScoring_def spec_scoring_def
    Let_def [of "vitals_bp p"] Let_def [of "vitals_sugar p"] spec_sugar_gt
  by (rule scoring_steps) simp_all

lemma example_high:
  "riskScoring (with_vitals (Some ''150/90'') (Some ''150'') q) [r1, r2, r3, r4] =
     \<lparr>score = 50,
      risks = [''High Blood Pressure'', ''High Blood Sugar'', ''Long-term medication dependency''],
      suggestions = [''Lifestyle improvement recommended'', ''Reduce salt intake'',
                     ''Avoid sugar and carbs'']\<rparr>"
  by (simp add: riskScoring_spec spec_scoring_def vitals_bp_def with_vitals_def or_default_def
      spec_sugar_def parseInt_150)

lemma example_low:
  "riskScoring (with_vitals (Some ''120/80'') (Some ''90'') q) [] =
     \<lparr>score = 100, risks = [''No major risks detected''],
      suggestions = [''Keep following current treatment'']\<rparr>"
  by (simp add: riskScoring_spec spec_scoring_def vitals_bp_def with_vitals_def or_default_def
      spec_sugar_def parseInt_90)

text \<open>
  C1. The scoring of the AI-insights handler is the function of the bp text, the parsed
  sugar and the number of prescriptions that section 4.8 describes: 100 to start, 20 off and
  the risk High Blood Pressure when the bp text contains 140 or 150, 20 off and High Blood
  Sugar when the sugar exceeds 140, 10 off and Long-term medication dependency with more
  than three prescriptions, and the two default entries for empty lists. For bp 150/90,
  sugar 150 and four prescriptions it gives score 50 with the three risks and the three
  suggestions; for bp 120/80, sugar 90 and no prescription it gives score 100 with the
  two default entries.
\<close>

theorem C1_risk_scoring:
  "riskScoring p rx = spec_scoring (vitals_bp p) (spec_sugar (sugar (p_vitals p))) (length rx)
   \<and> riskScoring (with_vitals (Some ''150/90'') (Some ''150'') q) [r1, r2, r3, r4] =
       \<lparr>score = 50,
        risks = [''High Blood Pressure'', ''High Blood Sugar'',
                 ''Long-term medication dependency''],
        suggestions = [''Lifestyle improvement recommended'', ''Reduce salt intake'',
                       ''Avoid sugar and carbs'']\<rparr>
   \<and> riskScoring (with_vitals (Some ''120/80'') (Some ''90'') q) [] =
       \<lparr>score = 100, risks = [''No major risks detected''],
        suggestions = [''Keep following current treatment'']\<rparr>"
  using riskScoring_spec example_high example_low by blast

text \<open>
  C5, as the code has it. The sugar vital goes through \<^verbatim>\<open>parseInt\<close>. When it is
  absent or empty the value used is 0; when it is a text with no leading number the value
  used is NaN, not 0. NaN fails the test against 140 as 0 does, so in all these cases the
  scoring gives what it gives for the sugar text 0.
\<close>

theorem C5_sugar_default:
  assumes "unparsable (sugar (p_vitals p))"
  shows "vitals_sugar p = (if sugar (p_vitals p) \<in> {None, Some []} then Some 0 else None)
       \<and> riskScoring p rx = riskScoring (p\<lparr>p_vitals := (p_vitals p)\<lparr>sugar := Some ''0''\<rparr>\<rparr>) rx"
proof
  show "vitals_sugar p = (if sugar (p_vitals p) \<in> {None, Some []} then Some 0 else None)"
    using assms by (auto simp: vitals_sugar_cases unparsable_def split: option.splits)
  have "spec_sugar (sugar (p_vitals p)) = 0"
    using assms by (auto simp: spec_sugar_def unparsable_def split: option.splits)
  then show "riskScoring p rx = riskScoring (p\<lparr>p_vitals := (p_vitals p)\<lparr>sugar := Some ''0''\<rparr>\<rparr>) rx"
    by (simp add: riskScoring_spec vitals_bp_def spec_sugar_def parseInt_zero)
qed

theorem C5_sugar_default_witness:
  "unparsable (sugar (p_vitals (with_vitals None (Some ''abc'') patientA)))
   \<and> vitals_sugar (with_vitals None (Some ''abc'') patientA) = None
   \<and> riskScoring (with_vitals None (Some ''abc'') patientA) [] =
       riskScoring (with_vitals None (Some ''0'') patientA) []"
proof -
  have u: "unparsable (sugar (p_vitals (with_vitals None (Some ''abc'') patientA)))"
    by (simp add: unparsable_def with_vitals_def parseInt_abc)
  show ?thesis
    using u C5_sugar_default [OF u, of "[]"]
    by (simp add: with_vitals_def)
qed

text \<open>
  The claim as the specification words it fails on the sugar text abc: it is unparsable,
  and the value the handler uses for it is NaN, not 0.
\<close>

theorem C5_sugar_counterexample:
  "unparsable (Some ''abc'')
   \<and> vitals_sugar (with_vitals None (Some ''abc'') patientA) \<noteq> Some 0"
  by (simp add: unparsable_def vitals_sugar_cases with_vitals_def parseInt_abc)

subsection \<open>Running the awaited calls\<close>

lemmas action_defs =
  ret_def throw_def await_def try_catch_def sent_def req_flash_def deref_def cast_id_def
  isAuth_def isDoctor_def

lemmas call_defs =
  User_findOne_def User_save_def Patient_findOne_def Patient_create_def Patient_findById_oid_def
  Patient_findById_def Patient_save_def Medicine_find_patient_def Medicine_find_in_def
  Medicine_findById_def Medicine_save_new_def Medicine_save_def Medicine_findByIdAndDelete_def
  Prescription_find_def Prescription_save_new_def

lemmas store_defs = store0_def doctorC_def patientA_def patientB_def medicineD_def new_patient_def
  idA_def idB_def idC_def idD_def idE_def idF_def

lemmas hex_defs = hexLib_def isHex_def isRadixDigit_def digitValue_def toLower_def digitsValue_def

lemma cast_idA: "castObjectId hexLib idA = Some idA"
  by (simp add: hex_defs idA_def)

lemma cast_idB: "castObjectId hexLib idB = Some idB"
  by (simp add: hex_defs idB_def)

lemma cast_idD: "castObjectId hexLib idD = Some idD"
  by (simp add: hex_defs idD_def)

lemma cast_idE: "castObjectId hexLib idE = Some idE"
  by (simp add: hex_defs idE_def)

lemma valid_idB: "isValid hexLib idB"
  by (simp add: hex_defs idB_def)

lemma cast_30: "castNumber hexLib ''30'' = Some (Some 30)"
  by (simp add: hex_defs)

lemma find_hit: "\<exists>x\<in>set xs. P x \<Longrightarrow> find P xs \<noteq> None"
  by (auto simp: find_None_iff)

lemma find_miss: "\<not> (\<exists>x\<in>set xs. P x) \<Longrightarrow> find P xs = None"
  by (auto simp: find_None_iff)

lemma find_split:
  "find P xs = Some x \<Longrightarrow>
   \<exists>pre post. xs = pre @ x # post \<and> (\<forall>y\<in>set pre. \<not> P y) \<and> P x"
proof (induction xs)
  case Nil
  then show ?case by simp
next
  case (Cons a xs)
  show ?case
  proof (cases "P a")
    case True
    with Cons.prems have "a = x" by simp
    with True have "a # xs = [] @ x # xs \<and> (\<forall>y\<in>set []. \<not> P y) \<and> P x" by simp
    then show ?thesis by blast
  next
    case False
    with Cons.prems have "find P xs = Some x" by simp
    from Cons.IH [OF this] obtain pre post
      where "xs = pre @ x # post" "\<forall>y\<in>set pre. \<not> P y" "P x" by blast
    with False have "a # xs = (a # pre) @ x # post \<and> (\<forall>y\<in>set (a # pre). \<not> P y) \<and> P x"
      by simp
    then show ?thesis by blast
  qed
qed

lemma replace_first_split:
  "\<forall>y\<in>set pre. \<not> P y \<Longrightarrow> P x \<Longrightarrow> replace_first P z (pre @ x # post) = pre @ z # post"
  by (induction pre) auto

lemma find_replace_first:
  "find P xs = Some x \<Longrightarrow> P z \<Longrightarrow> find P (replace_first P z xs) = Some z"
  by (induction xs) (auto split: if_splits)

lemma delete_first_distinct:
  "distinct (map f xs) \<Longrightarrow> k \<notin> f ` set (delete_first (\<lambda>x. f x = k) xs)"
proof (induction xs)
  case Nil
  then show ?case by simp
next
  case (Cons a xs)
  show ?case
  proof (cases "f a = k")
    case True
    with Cons.prems show ?thesis by auto
  next
    case False
    with Cons show ?thesis by auto
  qed
qed

lemma replace_first_set: "set (replace_first P y xs) \<subseteq> insert y (set xs)"
  by (induction xs) auto

lemma Patient_findById_hit:
  "castObjectId L i = Some k \<Longrightarrow>
   Patient_findById L i s =
     (Inr (find (\<lambda>p. p_id p = k) (patients s)), s\<lparr>queries := queries s @ [Q_Patient_findById]\<rparr>)"
  by (simp add: Patient_findById_def Patient_findById_oid_def action_defs)

lemma String_ref_differs:
  "x \<noteq> Some k \<Longrightarrow> k \<noteq> ''undefined'' \<Longrightarrow> String_ref x \<noteq> String_ref (Some k)"
  by (cases x) (auto simp: String_ref_def)

subsection \<open>Signup\<close>

lemma signup_duplicate_email:
  assumes "\<exists>u\<in>set (users s). email u = b_email body"
  shows "post_signup L i1 i2 body s =
           (Inr (Redirect ''/signup''),
            s\<lparr>queries := queries s @ [Q_User_findOne],
              flash := flash s @ [(''error'', ''Email already registered'')]\<rparr>)"
  using find_hit [OF assms]
  by (auto simp: post_signup_def User_findOne_def action_defs)

lemma signup_duplicate_code:
  assumes "\<not> (\<exists>u\<in>set (users s). email u = b_email body)" "b_role body = ''patient''"
    "\<exists>p\<in>set (patients s). patientCode p = b_patientId body"
  shows "post_signup L i1 i2 body s =
           (Inr (Redirect ''/signup''),
            s\<lparr>queries := queries s @ [Q_User_findOne, Q_Patient_findOne],
              flash := flash s @ [(''error'', ''Patient ID already exists'')]\<rparr>)"
  using find_miss [OF assms(1)] find_hit [OF assms(3)] assms(2)
  by (auto simp: post_signup_def User_findOne_def Patient_findOne_def action_defs)

lemma signup_patient_not_found:
  assumes "\<not> (\<exists>u\<in>set (users s). email u = b_email body)" "b_role body \<noteq> ''patient''"
    "\<not> (\<exists>p\<in>set (patients s). patientCode p = b_patientId body)"
  shows "post_signup L i1 i2 body s =
           (Inr (Redirect ''/signup''),
            s\<lparr>queries := queries s @ [Q_User_findOne, Q_Patient_findOne],
              flash := flash s @ [(''error'', ''Patient ID not found'')]\<rparr>)"
  using find_miss [OF assms(1)] find_miss [OF assms(3)] assms(2)
  by (auto simp: post_signup_def User_findOne_def Patient_findOne_def action_defs)

text \<open>
  C2. A signup whose email is already registered is turned away with the message Email
  already registered; otherwise, with role patient and a Patient that already has the
  submitted patientCode, with Patient ID already exists; otherwise, with role doctor and no
  Patient of that patientCode, with Patient ID not found. In each of the three cases the
  handler redirects to the signup form and creates no User (and no Patient).
\<close>

theorem C2_signup_failures:
  "((\<exists>u\<in>set (users s). email u = b_email body) \<longrightarrow>
      signup_rejected ''Email already registered'' s (post_signup L i1 i2 body s))
   \<and> (\<not> (\<exists>u\<in>set (users s). email u = b_email body) \<and> b_role body = ''patient''
        \<and> (\<exists>p\<in>set (patients s). patientCode p = b_patientId body) \<longrightarrow>
      signup_rejected ''Patient ID already exists'' s (post_signup L i1 i2 body s))
   \<and> (\<not> (\<exists>u\<in>set (users s). email u = b_email body) \<and> b_role body = ''doctor''
        \<and> \<not> (\<exists>p\<in>set (patients s). patientCode p = b_patientId body) \<longrightarrow>
      signup_rejected ''Patient ID not found'' s (post_signup L i1 i2 body s))"
proof (intro conjI impI)
  assume "\<exists>u\<in>set (users s). email u = b_email body"
  then show "signup_rejected ''Email already registered'' s (post_signup L i1 i2 body s)"
    by (simp add: signup_duplicate_email signup_rejected_def)
next
  assume "\<not> (\<exists>u\<in>set (users s). email u = b_email body) \<and> b_role body = ''patient''
        \<and> (\<exists>p\<in>set (patients s). patientCode p = b_patientId body)"
  then show "signup_rejected ''Patient ID already exists'' s (post_signup L i1 i2 body s)"
    by (simp add: signup_duplicate_code signup_rejected_def)
next
  assume a: "\<not> (\<exists>u\<in>set (users s). email u = b_email body) \<and> b_role body = ''doctor''
        \<and> \<not> (\<exists>p\<in>set (patients s). patientCode p = b_patientId body)"
  then have "b_role body \<noteq> ''patient''" by simp
  with a show "signup_rejected ''Patient ID not found'' s (post_signup L i1 i2 body s)"
    by (simp add: signup_patient_not_found signup_rejected_def)
qed

theorem C2_signup_failures_witness:
  "(\<exists>u\<in>set (users store0). email u = b_email formDup)
   \<and> signup_rejected ''Email already registered'' store0 (post_signup hexLib idE idF formDup store0)
   \<and> \<not> (\<exists>u\<in>set (users store0). email u = b_email formCode) \<and> b_role formCode = ''patient''
   \<and> (\<exists>p\<in>set (patients store0). patientCode p = b_patientId formCode)
   \<and> signup_rejected ''Patient ID already exists'' store0 (post_signup hexLib idE idF formCode store0)
   \<and> \<not> (\<exists>u\<in>set (users store0). email u = b_email formLost) \<and> b_role formLost = ''doctor''
   \<and> \<not> (\<exists>p\<in>set (patients store0). patientCode p = b_patientId formLost)
   \<and> signup_rejected ''Patient ID not found'' store0 (post_signup hexLib idE idF formLost store0)"
proof -
  have h1: "\<exists>u\<in>set (users store0). email u = b_email formDup"
    by (simp add: store_defs formDup_def)
  have h2: "\<not> (\<exists>u\<in>set (users store0). email u = b_email formCode) \<and> b_role formCode = ''patient''
     \<and> (\<exists>p\<in>set (patients store0). patientCode p = b_patientId formCode)"
    by (simp add: store_defs formCode_def)
  have h3: "\<not> (\<exists>u\<in>set (users store0). email u = b_email formLost) \<and> b_role formLost = ''doctor''
     \<and> \<not> (\<exists>p\<in>set (patients store0). patientCode p = b_patientId formLost)"
    by (simp add: store_defs formLost_def)
  show ?thesis
    using h1 h2 h3
      C2_signup_failures [of store0 formDup hexLib idE idF]
      C2_signup_failures [of store0 formCode hexLib idE idF]
      C2_signup_failures [of store0 formLost hexLib idE idF]
    by blast
qed

subsection \<open>Ownership checks\<close>

text \<open>
  C3. A doctor asks for a patient that exists and is not the one the doctor's account
  refers to. Both the prescriptions list and the AI insights answer Unauthorized after the
  one lookup of the patient: no prescription is read and nothing is rendered. The last
  premise says that the id is an ObjectId, which never prints as the word undefined.
\<close>

theorem C3_unauthorized:
  assumes "role u = ''doctor''" "castObjectId L i = Some k"
    "find (\<lambda>q. p_id q = k) (patients s) = Some p"
    "u_patient u \<noteq> Some (p_id p)" "p_id p \<noteq> ''undefined''"
  shows "(isValid L i \<longrightarrow>
           get_prescriptions L (Some u) i s =
             (Inr (Send 200 ''Unauthorized''), s\<lparr>queries := queries s @ [Q_Patient_findById]\<rparr>))
       \<and> get_ai_insights L (Some u) i s =
           (Inr (Send 200 ''Unauthorized''), s\<lparr>queries := queries s @ [Q_Patient_findById]\<rparr>)"
proof -
  have d: "String_ref (u_patient u) \<noteq> String_ref (Some (p_id p))"
    using assms(4,5) by (rule String_ref_differs)
  show ?thesis
    using assms(1) d
    by (simp add: get_prescriptions_def get_ai_insights_def Patient_findById_hit [OF assms(2)]
        assms(3) isAuth_def isDoctor_def try_catch_def await_def ret_def)
qed

theorem C3_unauthorized_witness:
  "role doctorC = ''doctor'' \<and> castObjectId hexLib idB = Some idB
   \<and> find (\<lambda>q. p_id q = idB) (patients store0) = Some patientB
   \<and> u_patient doctorC \<noteq> Some (p_id patientB) \<and> p_id patientB \<noteq> ''undefined''
   \<and> isValid hexLib idB
   \<and> fst (get_prescriptions hexLib (Some doctorC) idB store0) = Inr (Send 200 ''Unauthorized'')
   \<and> fst (get_ai_insights hexLib (Some doctorC) idB store0) = Inr (Send 200 ''Unauthorized'')"
proof -
  have h1: "role doctorC = ''doctor''" by (simp add: doctorC_def)
  have h2: "castObjectId hexLib idB = Some idB" by (rule cast_idB)
  have h3: "find (\<lambda>q. p_id q = idB) (patients store0) = Some patientB"
    by (simp add: store_defs)
  have h4: "u_patient doctorC \<noteq> Some (p_id patientB)" by (simp add: store_defs)
  have h5: "p_id patientB \<noteq> ''undefined''" by (simp add: store_defs)
  have h6: "isValid hexLib idB" by (rule valid_idB)
  show ?thesis
    using h1 h2 h3 h4 h5 h6 C3_unauthorized [OF h1 h2 h3 h4 h5]
    by simp
qed

lemma post_prescription_run:
  assumes "role u = ''doctor''" "castObjectId L i = Some k"
    "those (map (cast_line L) (b_medicines body)) = Some ls"
  shows "post_prescription L newId now (Some u) i body s =
     (Inr (Redirect (''/doctor/patient/'' @ i @ ''/prescriptions'')),
      s\<lparr>queries := queries s @ [Q_Prescription_save],
        prescriptions := prescriptions s @
          [\<lparr>r_id = newId, r_patient = Some k, doctor = Some (u_id u), r_medicines = ls,
            r_notes = Some (b_notes body), r_date = now\<rparr>]\<rparr>)"
  using assms
  by (simp add: post_prescription_def Prescription_save_new_def new_Prescription_def action_defs)

lemma post_prescription_responses:
  "fst (post_prescription L newId now req_user i body s) \<in>
     {Inr (Redirect ''/login''), Inr (Send 403 ''Access Denied: Doctors only''),
      Inr (Redirect (''/doctor/patient/'' @ i @ ''/prescriptions'')),
      Inr (Send 500 ''Failed to save Prescription'')}"
  by (auto simp: post_prescription_def Prescription_save_new_def action_defs split: option.splits)

text \<open>
  C10. Saving a prescription checks no ownership. For a doctor, a well-formed id and
  medicine lines that cast, the handler stores the Prescription for that id and redirects,
  whatever patient the doctor's account refers to; the handler never answers Unauthorized,
  and its whole result does not depend on the doctor's patient reference.
\<close>

theorem C10_no_ownership_check:
  "(role u = ''doctor'' \<and> castObjectId L i = Some k
      \<and> those (map (cast_line L) (b_medicines body)) = Some ls \<longrightarrow>
    post_prescription L newId now (Some u) i body s =
      (Inr (Redirect (''/doctor/patient/'' @ i @ ''/prescriptions'')),
       s\<lparr>queries := queries s @ [Q_Prescription_save],
         prescriptions := prescriptions s @
           [\<lparr>r_id = newId, r_patient = Some k, doctor = Some (u_id u), r_medicines = ls,
             r_notes = Some (b_notes body), r_date = now\<rparr>]\<rparr>))
   \<and> fst (post_prescription L newId now req_user i body s) \<noteq> Inr (Send c ''Unauthorized'')
   \<and> post_prescription L newId now (Some (u\<lparr>u_patient := x\<rparr>)) i body s =
       post_prescription L newId now (Some u) i body s"
proof (intro conjI impI)
  assume "role u = ''doctor'' \<and> castObjectId L i = Some k
      \<and> those (map (cast_line L) (b_medicines body)) = Some ls"
  then show "post_prescription L newId now (Some u) i body s =
      (Inr (Redirect (''/doctor/patient/'' @ i @ ''/prescriptions'')),
       s\<lparr>queries := queries s @ [Q_Prescription_save],
         prescriptions := prescriptions s @
           [\<lparr>r_id = newId, r_patient = Some k, doctor = Some (u_id u), r_medicines = ls,
             r_notes = Some (b_notes body), r_date = now\<rparr>]\<rparr>)"
    by (simp add: post_prescription_run)
next
  show "fst (post_prescription L newId now req_user i body s) \<noteq> Inr (Send c ''Unauthorized'')"
    using post_prescription_responses [of L newId now req_user i body s] by auto
next
  show "post_prescription L newId now (Some (u\<lparr>u_patient := x\<rparr>)) i body s =
      post_prescription L newId now (Some u) i body s"
    by (simp add: post_prescription_def action_defs)
qed

theorem C10_no_ownership_check_witness:
  "role doctorC = ''doctor'' \<and> castObjectId hexLib idB = Some idB
   \<and> those (map (cast_line hexLib) (b_medicines formRx)) =
       Some [\<lparr>l_name = Some ''Insulin'', dosage = Some 30, days = Some 30\<rparr>]
   \<and> u_patient doctorC \<noteq> Some idB
   \<and> post_prescription hexLib idE 7 (Some doctorC) idB formRx store0 =
       (Inr (Redirect (''/doctor/patient/'' @ idB @ ''/prescriptions'')),
        store0\<lparr>queries := [Q_Prescription_save],
          prescriptions :=
            [\<lparr>r_id = idE, r_patient = Some idB, doctor = Some idC,
              r_medicines = [\<lparr>l_name = Some ''Insulin'', dosage = Some 30, days = Some 30\<rparr>],
              r_notes = Some ''after meals'', r_date = 7\<rparr>]\<rparr>)"
proof -
  have d: "role doctorC = ''doctor''" by (simp add: doctorC_def)
  have l: "those (map (cast_line hexLib) (b_medicines formRx)) =
      Some [\<lparr>l_name = Some ''Insulin'', dosage = Some 30, days = Some 30\<rparr>]"
    by (simp add: formRx_def cast_line_def cast_30)
  have m: "u_patient doctorC \<noteq> Some idB" by (simp add: doctorC_def idA_def idB_def)
  show ?thesis
    using d l m cast_idB
      C10_no_ownership_check [of doctorC hexLib idB idB formRx
        "[\<lparr>l_name = Some ''Insulin'', dosage = Some 30, days = Some 30\<rparr>]" idE 7 store0
        "Some doctorC" 200 None]
    by (simp add: store0_def formRx_def doctorC_def)
qed

subsection \<open>Patient views\<close>

text \<open>
  C4, as the code has it. An authenticated request for a patient whose id is not a valid
  ObjectId reaches no database call: the state, with its list of calls, is unchanged. The
  answer is 400 Invalid patient ID, except for the empty id and the text undefined, which
  the first guard of the handler redirects to the dashboard.
\<close>

theorem C4_invalid_id:
  assumes "\<not> isValid L i"
  shows "get_patient L (Some u) i s =
           (Inr (if i = [] \<or> i = ''undefined'' then Redirect ''/dashboard''
                 else Send 400 ''Invalid patient ID''), s)"
  using assms by (simp add: get_patient_def isAuth_def ret_def)

theorem C4_invalid_id_witness:
  "\<not> isValid hexLib ''xyz''
   \<and> get_patient hexLib (Some doctorC) ''xyz'' store0 =
       (Inr (Send 400 ''Invalid patient ID''), store0)"
proof -
  have h: "\<not> isValid hexLib ''xyz''" by (simp add: hexLib_def)
  show ?thesis using h C4_invalid_id [OF h, of doctorC store0] by simp
qed

text \<open>
  The claim as the specification words it fails on the id undefined: it is not a valid
  ObjectId, and the answer is a redirect with status 302, outside the 400 class.
\<close>

theorem C4_invalid_id_counterexample:
  "\<not> isValid hexLib ''undefined''
   \<and> fst (get_patient hexLib (Some doctorC) ''undefined'' store0) = Inr (Redirect ''/dashboard'')
   \<and> \<not> (400 \<le> status_code (Redirect ''/dashboard'' :: nat response)
          \<and> status_code (Redirect ''/dashboard'' :: nat response) < 500)"
  by (simp add: hexLib_def get_patient_def isAuth_def ret_def)

text \<open>
  C8. The medicine view reads \<^verbatim>\<open>patient._id\<close> before it tests the patient. For a
  well-formed id that no Patient has, the lookup returns null and the read throws a
  TypeError out of the handler, before any Medicine is queried. Whatever the request, the
  handler never answers 404 Patient not found.
\<close>

theorem C8_null_patient:
  "(castObjectId L i = Some k \<and> find (\<lambda>q. p_id q = k) (patients s) = None \<longrightarrow>
      get_patient_medicines L (Some u) i s =
        (Inl TypeError, s\<lparr>queries := queries s @ [Q_Patient_findById]\<rparr>))
   \<and> fst (get_patient_medicines L req_user i s) \<noteq> Inr (Send 404 ''Patient not found'')"
proof
  show "castObjectId L i = Some k \<and> find (\<lambda>q. p_id q = k) (patients s) = None \<longrightarrow>
      get_patient_medicines L (Some u) i s =
        (Inl TypeError, s\<lparr>queries := queries s @ [Q_Patient_findById]\<rparr>)"
    by (auto simp: get_patient_medicines_def Patient_findById_hit isAuth_def await_def
        deref_def throw_def)
  show "fst (get_patient_medicines L req_user i s) \<noteq> Inr (Send 404 ''Patient not found'')"
    by (auto simp: get_patient_medicines_def Patient_findById_def Patient_findById_oid_def
        Medicine_find_patient_def action_defs split: option.splits sum.splits prod.splits)
qed

theorem C8_null_patient_witness:
  "castObjectId hexLib idE = Some idE \<and> find (\<lambda>q. p_id q = idE) (patients store0) = None
   \<and> fst (get_patient_medicines hexLib (Some doctorC) idE store0) = Inl TypeError"
proof -
  have f: "find (\<lambda>q. p_id q = idE) (patients store0) = None"
    by (simp add: store_defs)
  have h: "castObjectId hexLib idE = Some idE \<and> find (\<lambda>q. p_id q = idE) (patients store0) = None"
    using cast_idE f by simp
  show ?thesis
    using h C8_null_patient [of hexLib idE idE store0 doctorC None]
    by simp
qed

subsection \<open>Doctor dashboard\<close>

lemma dashboard_run:
  assumes "role u = ''doctor''" "u_patient u = Some k"
    "find (\<lambda>q. p_id q = k) (patients s) = Some p"
  shows "doctor_dashboard (Some u) s =
     (if assignedDoctor p = None
      then (Inr (Render (DoctorView (p\<lparr>assignedDoctor := Some (u_id u)\<rparr>)
                   (filter (\<lambda>m. m_id m \<in> set (p_medicines p)) (medicines s)))),
            s\<lparr>queries := queries s @ [Q_Patient_findById, Q_Patient_save, Q_Medicine_find],
              patients := replace_first (\<lambda>q. p_id q = k) (p\<lparr>assignedDoctor := Some (u_id u)\<rparr>)
                            (patients s)\<rparr>)
      else (Inr (Render (DoctorView p (filter (\<lambda>m. m_id m \<in> set (p_medicines p)) (medicines s)))),
            s\<lparr>queries := queries s @ [Q_Patient_findById, Q_Medicine_find]\<rparr>))"
proof -
  from find_split [OF assms(3)] have k: "p_id p = k" by blast
  show ?thesis
    using assms k
    by (simp add: doctor_dashboard_def Patient_findById_oid_def Patient_save_def
        Medicine_find_in_def action_defs)
qed

text \<open>
  C7. A doctor whose linked patient exists opens the dashboard. If the patient has no
  assignedDoctor, the handler saves the patient with assignedDoctor set to the doctor's id:
  that one document changes in that one field, in place. If assignedDoctor is set, the
  handler writes nothing: the state differs only by the two reads in the list of calls.
\<close>

theorem C7_dashboard_assignment:
  assumes "role u = ''doctor''" "u_patient u = Some k"
    "find (\<lambda>q. p_id q = k) (patients s) = Some p"
  shows "(assignedDoctor p = None \<longrightarrow>
            (\<exists>pre post. patients s = pre @ p # post
               \<and> patients (snd (doctor_dashboard (Some u) s)) =
                   pre @ p\<lparr>assignedDoctor := Some (u_id u)\<rparr> # post)
            \<and> find (\<lambda>q. p_id q = k) (patients (snd (doctor_dashboard (Some u) s))) =
                Some (p\<lparr>assignedDoctor := Some (u_id u)\<rparr>)
            \<and> Q_Patient_save \<in> set (queries (snd (doctor_dashboard (Some u) s))))
       \<and> (assignedDoctor p \<noteq> None \<longrightarrow>
            snd (doctor_dashboard (Some u) s) =
              s\<lparr>queries := queries s @ [Q_Patient_findById, Q_Medicine_find]\<rparr>)"
proof (intro conjI impI)
  assume n: "assignedDoctor p = None"
  from find_split [OF assms(3)] obtain pre post
    where sp: "patients s = pre @ p # post" "\<forall>y\<in>set pre. p_id y \<noteq> k" "p_id p = k" by blast
  have r: "patients (snd (doctor_dashboard (Some u) s)) =
      replace_first (\<lambda>q. p_id q = k) (p\<lparr>assignedDoctor := Some (u_id u)\<rparr>) (patients s)"
    using n by (simp add: dashboard_run [OF assms])
  have "replace_first (\<lambda>q. p_id q = k) (p\<lparr>assignedDoctor := Some (u_id u)\<rparr>) (pre @ p # post) =
      pre @ p\<lparr>assignedDoctor := Some (u_id u)\<rparr> # post"
    using sp(2,3) by (intro replace_first_split) auto
  with r sp(1)
  show "\<exists>pre post. patients s = pre @ p # post
      \<and> patients (snd (doctor_dashboard (Some u) s)) =
          pre @ p\<lparr>assignedDoctor := Some (u_id u)\<rparr> # post"
    by auto
  show "find (\<lambda>q. p_id q = k) (patients (snd (doctor_dashboard (Some u) s))) =
      Some (p\<lparr>assignedDoctor := Some (u_id u)\<rparr>)"
    unfolding r using assms(3) sp(3) by (intro find_replace_first) auto
  show "Q_Patient_save \<in> set (queries (snd (doctor_dashboard (Some u) s)))"
    using n by (simp add: dashboard_run [OF assms])
next
  assume "assignedDoctor p \<noteq> None"
  then show "snd (doctor_dashboard (Some u) s) =
      s\<lparr>queries := queries s @ [Q_Patient_findById, Q_Medicine_find]\<rparr>"
    by (auto simp: dashboard_run [OF assms])
qed

theorem C7_dashboard_assignment_witness:
  "role doctorC = ''doctor'' \<and> u_patient doctorC = Some idA
   \<and> find (\<lambda>q. p_id q = idA) (patients store0) = Some patientA
   \<and> assignedDoctor patientA = None
   \<and> find (\<lambda>q. p_id q = idA) (patients (snd (doctor_dashboard (Some doctorC) store0))) =
       Some (patientA\<lparr>assignedDoctor := Some idC\<rparr>)
   \<and> role doctorF = ''doctor'' \<and> u_patient doctorF = Some idB
   \<and> find (\<lambda>q. p_id q = idB) (patients store0) = Some patientB
   \<and> assignedDoctor patientB \<noteq> None
   \<and> patients (snd (doctor_dashboard (Some doctorF) store0)) = patients store0"
proof -
  have a1: "role doctorC = ''doctor''" and a2: "u_patient doctorC = Some idA"
    and a3: "find (\<lambda>q. p_id q = idA) (patients store0) = Some patientA"
    and a4: "assignedDoctor patientA = None" and a5: "u_id doctorC = idC"
    by (simp_all add: store_defs)
  have b1: "role doctorF = ''doctor''" and b2: "u_patient doctorF = Some idB"
    and b3: "find (\<lambda>q. p_id q = idB) (patients store0) = Some patientB"
    and b4: "assignedDoctor patientB \<noteq> None"
    by (simp_all add: store_defs doctorF_def)
  show ?thesis
    using a1 a2 a3 a4 a5 b1 b2 b3 b4
      C7_dashboard_assignment [OF a1 a2 a3] C7_dashboard_assignment [OF b1 b2 b3]
    by simp
qed

subsection \<open>Medicines\<close>

lemma update_run:
  assumes "role u = ''doctor''"
  shows "post_medicine_update L (Some u) i body s =
     (case castObjectId L i of
        None \<Rightarrow> (Inr (Send 500 ''Failure to update Medicine''), s)
      | Some k \<Rightarrow>
         (case find (\<lambda>m. m_id m = k) (medicines s) of
            None \<Rightarrow> (Inr (Send 500 ''Failure to update Medicine''),
                     s\<lparr>queries := queries s @ [Q_Medicine_findById]\<rparr>)
          | Some med \<Rightarrow>
             (case castNumber L (bm_dosesRemaining body) of
                None \<Rightarrow> (Inr (Send 500 ''Failure to update Medicine''),
                         s\<lparr>queries := queries s @ [Q_Medicine_findById]\<rparr>)
              | Some n \<Rightarrow>
                 (Inr (Redirect ''/doctor/patient/${req.params.id}/medicines''),
                  s\<lparr>queries := queries s @ [Q_Medicine_findById, Q_Medicine_save],
                    medicines := replace_first (\<lambda>m. m_id m = m_id med)
                      (med\<lparr>m_name := Some (bm_name body), dosesRemaining := n,
                           frequency := Some (bm_frequency body),
                           reason := Some (bm_reason body)\<rparr>) (medicines s)\<rparr>))))"
  using assms
  by (auto simp: post_medicine_update_def Medicine_findById_def Medicine_save_def
      assign_fields_def action_defs split: option.splits)

lemma delete_run:
  assumes "role u = ''doctor''"
  shows "post_medicine_delete L (Some u) i s =
     (case castObjectId L i of
        None \<Rightarrow> (Inr (Send 500 '' Failure to Delete medicines''), s)
      | Some k \<Rightarrow>
         (Inr (Redirect ''/doctor/patient/${req.params.id}/medicines''),
          s\<lparr>queries := queries s @ [Q_Medicine_findByIdAndDelete],
            medicines := delete_first (\<lambda>m. m_id m = k) (medicines s)\<rparr>))"
  using assms
  by (auto simp: post_medicine_delete_def Medicine_findByIdAndDelete_def action_defs
      split: option.splits)

lemma not_doctor_update:
  "role u \<noteq> ''doctor'' \<Longrightarrow>
   post_medicine_update L (Some u) i body s = (Inr (Send 403 ''Access Denied: Doctors only''), s)"
  by (simp add: post_medicine_update_def action_defs)

lemma not_doctor_delete:
  "role u \<noteq> ''doctor'' \<Longrightarrow>
   post_medicine_delete L (Some u) i s = (Inr (Send 403 ''Access Denied: Doctors only''), s)"
  by (simp add: post_medicine_delete_def action_defs)

text \<open>
  C6. When the update of a medicine ends in a redirect, the target is the path template as
  written, with the text of the placeholder in it and no id, and the stored medicine of
  that id is the old one with name, dosesRemaining, frequency and reason taken from the
  form. When the delete ends in a redirect, the target is the same template, and the
  medicine of that id is removed: with unique ids none of that id remains.
\<close>

theorem C6_literal_redirect:
  "(fst (post_medicine_update L (Some u) i body s) = Inr (Redirect t) \<longrightarrow>
      t = ''/doctor/patient/${req.params.id}/medicines''
      \<and> (\<exists>k old n. castObjectId L i = Some k
            \<and> find (\<lambda>m. m_id m = k) (medicines s) = Some old
            \<and> castNumber L (bm_dosesRemaining body) = Some n
            \<and> find (\<lambda>m. m_id m = k) (medicines (snd (post_medicine_update L (Some u) i body s))) =
                Some (old\<lparr>m_name := Some (bm_name body), dosesRemaining := n,
                          frequency := Some (bm_frequency body),
                          reason := Some (bm_reason body)\<rparr>)))
   \<and> (fst (post_medicine_delete L (Some u) i s) = Inr (Redirect t') \<longrightarrow>
      t' = ''/doctor/patient/${req.params.id}/medicines''
      \<and> (\<exists>k. castObjectId L i = Some k
            \<and> medicines (snd (post_medicine_delete L (Some u) i s)) =
                delete_first (\<lambda>m. m_id m = k) (medicines s)
            \<and> (distinct (map m_id (medicines s)) \<longrightarrow>
                 find (\<lambda>m. m_id m = k) (medicines (snd (post_medicine_delete L (Some u) i s))) = None)))"
proof (intro conjI impI)
  assume r: "fst (post_medicine_update L (Some u) i body s) = Inr (Redirect t)"
  then have d: "role u = ''doctor''"
    by (cases "role u = ''doctor''") (auto simp: not_doctor_update)
  from r obtain k old n where f: "castObjectId L i = Some k"
      "find (\<lambda>m. m_id m = k) (medicines s) = Some old"
      "castNumber L (bm_dosesRemaining body) = Some n"
    by (auto simp: update_run [OF d] split: option.splits)
  from find_split [OF f(2)] have ik: "m_id old = k" by blast
  from r f show "t = ''/doctor/patient/${req.params.id}/medicines''"
    by (simp add: update_run [OF d])
  let ?new = "old\<lparr>m_name := Some (bm_name body), dosesRemaining := n,
                  frequency := Some (bm_frequency body), reason := Some (bm_reason body)\<rparr>"
  have "medicines (snd (post_medicine_update L (Some u) i body s)) =
      replace_first (\<lambda>m. m_id m = k) ?new (medicines s)"
    using f ik by (simp add: update_run [OF d])
  moreover have "find (\<lambda>m. m_id m = k) (replace_first (\<lambda>m. m_id m = k) ?new (medicines s)) =
      Some ?new"
    using f(2) ik by (intro find_replace_first) auto
  ultimately show "\<exists>k old n. castObjectId L i = Some k
      \<and> find (\<lambda>m. m_id m = k) (medicines s) = Some old
      \<and> castNumber L (bm_dosesRemaining body) = Some n
      \<and> find (\<lambda>m. m_id m = k) (medicines (snd (post_medicine_update L (Some u) i body s))) =
          Some (old\<lparr>m_name := Some (bm_name body), dosesRemaining := n,
                    frequency := Some (bm_frequency body), reason := Some (bm_reason body)\<rparr>)"
    using f by auto
next
  assume r: "fst (post_medicine_delete L (Some u) i s) = Inr (Redirect t')"
  then have d: "role u = ''doctor''"
    by (cases "role u = ''doctor''") (auto simp: not_doctor_delete)
  from r obtain k where f: "castObjectId L i = Some k"
    by (auto simp: delete_run [OF d] split: option.splits)
  from r f show "t' = ''/doctor/patient/${req.params.id}/medicines''"
    by (simp add: delete_run [OF d])
  have m: "medicines (snd (post_medicine_delete L (Some u) i s)) =
      delete_first (\<lambda>m. m_id m = k) (medicines s)"
    using f by (simp add: delete_run [OF d])
  have "distinct (map m_id (medicines s)) \<longrightarrow>
      find (\<lambda>m. m_id m = k) (delete_first (\<lambda>m. m_id m = k) (medicines s)) = None"
    using delete_first_distinct [of m_id "medicines s" k] by (auto simp: find_None_iff)
  with f m show "\<exists>k. castObjectId L i = Some k
      \<and> medicines (snd (post_medicine_delete L (Some u) i s)) =
          delete_first (\<lambda>m. m_id m = k) (medicines s)
      \<and> (distinct (map m_id (medicines s)) \<longrightarrow>
           find (\<lambda>m. m_id m = k) (medicines (snd (post_medicine_delete L (Some u) i s))) = None)"
    by auto
qed

theorem C6_literal_redirect_witness:
  "fst (post_medicine_update hexLib (Some doctorC) idD formMed store0) =
     Inr (Redirect ''/doctor/patient/${req.params.id}/medicines'')
   \<and> find (\<lambda>m. m_id m = idD) (medicines (snd (post_medicine_update hexLib (Some doctorC) idD formMed store0))) =
       Some \<lparr>m_id = idD, m_name = Some ''Insulin'', dosesRemaining = Some 30,
             frequency = Some ''twice daily'', reason = Some ''diabetes'', m_patient = Some idA\<rparr>
   \<and> fst (post_medicine_delete hexLib (Some doctorC) idD store0) =
       Inr (Redirect ''/doctor/patient/${req.params.id}/medicines'')
   \<and> distinct (map m_id (medicines store0))
   \<and> medicines (snd (post_medicine_delete hexLib (Some doctorC) idD store0)) = []"
proof -
  have d: "role doctorC = ''doctor''" by (simp add: doctorC_def)
  have f: "find (\<lambda>m. m_id m = idD) (medicines store0) = Some medicineD"
    by (simp add: store0_def medicineD_def)
  have u: "fst (post_medicine_update hexLib (Some doctorC) idD formMed store0) =
      Inr (Redirect ''/doctor/patient/${req.params.id}/medicines'')"
    by (simp add: update_run [OF d] cast_idD f formMed_def cast_30)
  have e: "fst (post_medicine_delete hexLib (Some doctorC) idD store0) =
      Inr (Redirect ''/doctor/patient/${req.params.id}/medicines'')"
    by (simp add: delete_run [OF d] cast_idD)
  have x: "distinct (map m_id (medicines store0))" by (simp add: store0_def)
  have y: "delete_first (\<lambda>m. m_id m = idD) (medicines store0) = []"
    by (simp add: store0_def medicineD_def)
  show ?thesis
    using u e x y f
      C6_literal_redirect [of hexLib doctorC idD formMed store0
        "''/doctor/patient/${req.params.id}/medicines''" "''/doctor/patient/${req.params.id}/medicines''"]
    by (simp add: cast_idD cast_30 formMed_def medicineD_def)
qed

lemma post_medicine_run:
  assumes "role u = ''doctor''" "castObjectId L i = Some k"
    "castNumber L (bm_dosesRemaining body) = Some n"
  shows "post_medicine L newId (Some u) i body s =
     (Inr (Redirect (''/doctor/patient/'' @ i @ ''/medicines'')),
      s\<lparr>queries := queries s @ [Q_Medicine_save],
        medicines := medicines s @
          [\<lparr>m_id = newId, m_name = Some (bm_name body), dosesRemaining = n,
            frequency = Some (bm_frequency body), reason = Some (bm_reason body),
            m_patient = Some k\<rparr>]\<rparr>)"
  using assms
  by (simp add: post_medicine_def Medicine_save_new_def new_Medicine_def action_defs)

lemma linked_replace:
  assumes "p \<in> set xs" "p_medicines y = p_medicines p"
  shows "(\<Union>q\<in>set (replace_first P y xs). set (p_medicines q))
       \<subseteq> (\<Union>q\<in>set xs. set (p_medicines q))"
proof
  fix m
  assume "m \<in> (\<Union>q\<in>set (replace_first P y xs). set (p_medicines q))"
  then obtain q where q: "q \<in> set (replace_first P y xs)" "m \<in> set (p_medicines q)"
    by blast
  from q(1) replace_first_set [of P y xs] have "q = y \<or> q \<in> set xs" by blast
  with q(2) assms show "m \<in> (\<Union>q\<in>set xs. set (p_medicines q))" by auto
qed

lemma linked_signup: "linked (snd (post_signup L i1 i2 body s)) \<subseteq> linked s"
  by (auto simp: linked_def post_signup_def create_user_def new_patient_def call_defs action_defs
      split: option.splits if_splits)

lemma patients_get_patient: "patients (snd (get_patient L ru i s)) = patients s"
  by (auto simp: get_patient_def call_defs action_defs split: option.splits)

lemma linked_dashboard: "linked (snd (doctor_dashboard ru s)) \<subseteq> linked s"
proof (cases ru)
  case None
  then show ?thesis by (simp add: doctor_dashboard_def action_defs linked_def)
next
  case (Some u)
  show ?thesis
  proof (cases "role u = ''doctor''")
    case False
    with Some show ?thesis by (simp add: doctor_dashboard_def action_defs linked_def)
  next
    case d: True
    show ?thesis
    proof (cases "u_patient u")
      case None
      with Some d show ?thesis by (simp add: doctor_dashboard_def action_defs linked_def)
    next
      case k: (Some k)
      show ?thesis
      proof (cases "find (\<lambda>q. p_id q = k) (patients s)")
        case None
        with Some d k show ?thesis
          by (simp add: doctor_dashboard_def call_defs action_defs linked_def)
      next
        case p: (Some p)
        from find_split [OF p] have "p \<in> set (patients s)" by auto
        then have "linked (s\<lparr>patients := replace_first (\<lambda>q. p_id q = k)
            (p\<lparr>assignedDoctor := Some (u_id u)\<rparr>) (patients s)\<rparr>) \<subseteq> linked s"
          unfolding linked_def by (simp add: linked_replace)
        then show ?thesis
          unfolding Some by (auto simp: dashboard_run [OF d k p] linked_def)
      qed
    qed
  qed
qed

lemma patients_get_patient_medicines:
  "patients (snd (get_patient_medicines L ru i s)) = patients s"
  by (auto simp: get_patient_medicines_def call_defs action_defs split: option.splits)

lemma post_medicine_patients:
  "patients (snd (post_medicine L newId req_user i body s)) = patients s"
  by (auto simp: post_medicine_def call_defs action_defs split: option.splits)

lemma patients_update: "patients (snd (post_medicine_update L ru i body s)) = patients s"
  by (auto simp: post_medicine_update_def call_defs action_defs split: option.splits)

lemma patients_delete: "patients (snd (post_medicine_delete L ru i s)) = patients s"
  by (auto simp: post_medicine_delete_def call_defs action_defs split: option.splits)

lemma patients_get_prescriptions: "patients (snd (get_prescriptions L ru i s)) = patients s"
  by (auto simp: get_prescriptions_def call_defs action_defs split: option.splits)

lemma patients_post_prescription:
  "patients (snd (post_prescription L newId now ru i body s)) = patients s"
  by (auto simp: post_prescription_def call_defs action_defs split: option.splits)

lemma patients_ai: "patients (snd (get_ai_insights L ru i s)) = patients s"
  by (auto simp: get_ai_insights_def call_defs action_defs Let_def split: option.splits)

text \<open>No request adds an id to the \<^verbatim>\<open>medicines\<close> array of a Patient.\<close>

lemma step_linked: "step L s t \<Longrightarrow> linked t \<subseteq> linked s"
proof (induction rule: step.induct)
  case (signup s newPatientId newUserId body)
  then show ?case by (rule linked_signup)
next
  case (dashboard s req_user)
  then show ?case by (rule linked_dashboard)
qed (simp_all add: linked_def patients_get_patient patients_get_patient_medicines
    post_medicine_patients patients_update patients_delete patients_get_prescriptions
    patients_post_prescription patients_ai)

lemma steps_linked: "(step L)\<^sup>*\<^sup>* s t \<Longrightarrow> linked t \<subseteq> linked s"
proof (induction rule: rtranclp_induct)
  case base
  then show ?case by simp
next
  case (step y z)
  from step_linked [OF step.hyps(2)] step.IH show ?case by blast
qed

lemma dashboard_lists_linked_only:
  assumes "fst (doctor_dashboard req_user s) = Inr (Render (DoctorView p ms))"
  shows "m_id ` set ms \<subseteq> linked s"
proof -
  from assms obtain u where u: "req_user = Some u"
    by (cases req_user) (auto simp: doctor_dashboard_def action_defs)
  from assms u have d: "role u = ''doctor''"
    by (cases "role u = ''doctor''") (auto simp: doctor_dashboard_def action_defs)
  from assms u d obtain k where k: "u_patient u = Some k"
    by (cases "u_patient u") (auto simp: doctor_dashboard_def action_defs)
  from assms u d k obtain q where q: "find (\<lambda>q. p_id q = k) (patients s) = Some q"
    by (cases "find (\<lambda>q. p_id q = k) (patients s)")
      (auto simp: doctor_dashboard_def Patient_findById_oid_def action_defs)
  from find_split [OF q] have "q \<in> set (patients s)" by auto
  moreover from assms have "ms = filter (\<lambda>m. m_id m \<in> set (p_medicines q)) (medicines s)"
    unfolding u by (auto simp: dashboard_run [OF d k q] split: if_splits)
  ultimately show ?thesis by (auto simp: linked_def)
qed

text \<open>
  C9. Creating a medicine changes no Patient document, so no \<^verbatim>\<open>medicines\<close> array. When
  the request is a doctor's and the form casts, the new Medicine is stored with the generated
  id and the patient reference. The dashboard lists the medicines whose id is in the
  patient's array, so after the creation and after any further requests it never lists
  the new medicine. The premise says that the generated id is new: no array holds it yet.
\<close>

theorem C9_medicine_not_linked:
  assumes "newId \<notin> linked s"
  shows "patients (snd (post_medicine L newId (Some u) i body s)) = patients s
       \<and> (role u = ''doctor'' \<and> castObjectId L i = Some k
            \<and> castNumber L (bm_dosesRemaining body) = Some n \<longrightarrow>
          medicines (snd (post_medicine L newId (Some u) i body s)) =
            medicines s @
              [\<lparr>m_id = newId, m_name = Some (bm_name body), dosesRemaining = n,
                frequency = Some (bm_frequency body), reason = Some (bm_reason body),
                m_patient = Some k\<rparr>])
       \<and> (\<forall>t req_user p ms.
            (step L)\<^sup>*\<^sup>* (snd (post_medicine L newId (Some u) i body s)) t \<longrightarrow>
            fst (doctor_dashboard req_user t) = Inr (Render (DoctorView p ms)) \<longrightarrow>
            (\<forall>m\<in>set ms. m_id m \<noteq> newId))"
proof (intro conjI allI impI)
  show "patients (snd (post_medicine L newId (Some u) i body s)) = patients s"
    by (rule post_medicine_patients)
next
  assume "role u = ''doctor'' \<and> castObjectId L i = Some k
      \<and> castNumber L (bm_dosesRemaining body) = Some n"
  then show "medicines (snd (post_medicine L newId (Some u) i body s)) =
      medicines s @
        [\<lparr>m_id = newId, m_name = Some (bm_name body), dosesRemaining = n,
          frequency = Some (bm_frequency body), reason = Some (bm_reason body),
          m_patient = Some k\<rparr>]"
    by (simp add: post_medicine_run)
next
  fix t req_user p ms
  assume r: "(step L)\<^sup>*\<^sup>* (snd (post_medicine L newId (Some u) i body s)) t"
    and v: "fst (doctor_dashboard req_user t) = Inr (Render (DoctorView p ms))"
  have "linked (snd (post_medicine L newId (Some u) i body s)) = linked s"
    by (simp add: linked_def post_medicine_patients)
  with steps_linked [OF r] have "linked t \<subseteq> linked s" by simp
  with dashboard_lists_linked_only [OF v] assms have "newId \<notin> m_id ` set ms" by blast
  then show "\<forall>m\<in>set ms. m_id m \<noteq> newId" by auto
qed

theorem C9_medicine_not_linked_witness:
  "idE \<notin> linked store0
   \<and> role doctorC = ''doctor'' \<and> castObjectId hexLib idA = Some idA
   \<and> castNumber hexLib (bm_dosesRemaining formMed) = Some (Some 30)
   \<and> patients (snd (post_medicine hexLib idE (Some doctorC) idA formMed store0)) = patients store0
   \<and> medicines (snd (post_medicine hexLib idE (Some doctorC) idA formMed store0)) =
       [medicineD,
        \<lparr>m_id = idE, m_name = Some ''Insulin'', dosesRemaining = Some 30,
          frequency = Some ''twice daily'', reason = Some ''diabetes'', m_patient = Some idA\<rparr>]
   \<and> fst (doctor_dashboard (Some doctorC)
            (snd (post_medicine hexLib idE (Some doctorC) idA formMed store0))) =
       Inr (Render (DoctorView (patientA\<lparr>assignedDoctor := Some idC\<rparr>) []))"
proof -
  have h: "idE \<notin> linked store0"
    by (simp add: linked_def store0_def patientA_def patientB_def new_patient_def)
  have d: "role doctorC = ''doctor''" by (simp add: doctorC_def)
  have n: "castNumber hexLib (bm_dosesRemaining formMed) = Some (Some 30)"
    by (simp add: formMed_def cast_30)
  have k: "u_patient doctorC = Some idA" by (simp add: doctorC_def)
  have f: "find (\<lambda>q. p_id q = idA) (patients store0) = Some patientA"
    by (simp add: store0_def patientA_def new_patient_def)
  have a: "assignedDoctor patientA = None" "p_medicines patientA = []" "u_id doctorC = idC"
    by (simp_all add: patientA_def new_patient_def doctorC_def)
  have r: "fst (doctor_dashboard (Some doctorC)
        (snd (post_medicine hexLib idE (Some doctorC) idA formMed store0))) =
      Inr (Render (DoctorView (patientA\<lparr>assignedDoctor := Some idC\<rparr>) []))"
    using a f by (simp add: dashboard_run [OF d k] post_medicine_run [OF d cast_idA n])
  show ?thesis
    using h d n r cast_idA
      C9_medicine_not_linked [OF h, of hexLib doctorC idA formMed idA "Some 30"]
    by (simp add: store0_def formMed_def)
qed

end
